theory Spec2Isabelle
  imports Main
begin

section \<open>Values of the configuration literals\<close>

text \<open>
  Both entry modules build one object literal out of string, boolean, array and object
  literals and pass it to the default export of the imported blog module. A value of
  that fragment of the language is a \<open>jsvalue\<close>. An object keeps its properties in the
  order the literal writes them; a property the literal does not write is absent, which
  is what reading it gives as \<open>undefined\<close> (here \<open>None\<close>).
\<close>

datatype jsvalue =
    Str string
  | Bool bool
  | Arr "jsvalue list"
  | Obj "(string \<times> jsvalue) list"

fun prop_of :: "string \<Rightarrow> jsvalue \<Rightarrow> jsvalue option" where
  "prop_of k (Obj ps) = map_of ps k"
| "prop_of k v = None"

fun keys :: "jsvalue \<Rightarrow> string list" where
  "keys (Obj ps) = map fst ps"
| "keys v = []"

subsection \<open>src/main.ts\<close>

definition main_ts_import :: string where
  "main_ts_import = ''https://deno.land/x/blog@0.3.3/blog.tsx''"

definition main_ts_settings :: jsvalue where
  "main_ts_settings = Obj
    [(''title'', Str ''Henok Tadesse''),
     (''author'', Str ''Henok Tadesse''),
     (''avatar'', Str ''avatar.jpg''),
     (''avatarClass'', Str ''rounded-full''),
     (''background'', Str ''#f9f9f9''),
     (''links'', Arr
        [Obj [(''title'', Str ''Email''), (''url'', Str ''mailto:hegystyle@gmail.com'')],
         Obj [(''title'', Str ''Github''), (''url'', Str ''https://github.com/HenokT'')]])]"

subsection \<open>src/unnamed/part_000\<close>

definition part_000_import :: string where
  "part_000_import = ''https://raw.githubusercontent.com/denoland/deno_blog/main/blog.tsx''"

definition part_000_settings :: jsvalue where
  "part_000_settings = Obj
    [(''author'', Str ''Henok Tadesse''),
     (''title'', Str ''Henok Tadesse''),
     (''description'',
        Str ''A personal blog where I share what I learn as a sofware developer.''),
     (''avatar'', Str ''avatar.jpg''),
     (''avatarClass'', Str ''rounded-full''),
     (''links'', Arr
        [Obj [(''title'', Str ''Email''), (''url'', Str ''mailto:hegystyle@gmail.com'')],
         Obj [(''title'', Str ''Github''), (''url'', Str ''https://github.com/HenokT'')]]),
     (''readtime'', Bool True),
     (''middlewares'', Arr [])]"

section \<open>Running an entry module\<close>

text \<open>
  Neither module reads anything of its surroundings: no command-line argument, no
  environment variable, no file. The surroundings are made a parameter all the same, so
  that the independence of the result from them is a statement about the model and
  not a convention.
\<close>

record ambient =
  argv :: "string list"
  environ :: "(string \<times> string) list"

text \<open>
  The only thing either module does to the outside is to call the default export of the
  module it imports; \<open>Invoke spec v\<close> is such a call, with the module specifier of the
  import and the argument. A process keeps the objects its literals have built so far
  and the calls it has made, both oldest first.
\<close>

datatype effect = Invoke string jsvalue

record process =
  objects :: "jsvalue list"
  effects :: "effect list"

datatype error = RuntimeError string

definition startup :: process where
  "startup = \<lparr>objects = [], effects = []\<rparr>"

definition object_literal :: "jsvalue \<Rightarrow> process \<Rightarrow> process" where
  "object_literal v p = p\<lparr>objects := objects p @ [v]\<rparr>"

definition call_default :: "string \<Rightarrow> jsvalue \<Rightarrow> process \<Rightarrow> process" where
  "call_default spec v p = p\<lparr>effects := effects p @ [Invoke spec v]\<rparr>"

text \<open>
  Evaluating the literal of \<^verbatim>\<open>blog({ ... })\<close>. Every property value is itself a
  literal: there is no identifier, call, property access or \<^verbatim>\<open>throw\<close> in it, so the
  evaluation has no branch that gives an error.
\<close>

definition main_ts_literal :: "ambient \<Rightarrow> error + jsvalue" where
  "main_ts_literal amb = Inr main_ts_settings"

definition part_000_literal :: "ambient \<Rightarrow> error + jsvalue" where
  "part_000_literal amb = Inr part_000_settings"

text \<open>The module bodies: one expression statement each, \<^verbatim>\<open>blog({ ... });\<close>.\<close>

definition main_ts :: "ambient \<Rightarrow> process \<Rightarrow> error + process" where
  "main_ts amb p =
    (case main_ts_literal amb of
       Inl e \<Rightarrow> Inl e
     | Inr cfg \<Rightarrow> Inr (call_default main_ts_import cfg (object_literal cfg p)))"

definition part_000 :: "ambient \<Rightarrow> process \<Rightarrow> error + process" where
  "part_000 amb p =
    (case part_000_literal amb of
       Inl e \<Rightarrow> Inl e
     | Inr cfg \<Rightarrow> Inr (call_default part_000_import cfg (object_literal cfg p)))"

fun argument :: "effect \<Rightarrow> jsvalue" where
  "argument (Invoke spec v) = v"

text \<open>What a module, run from the start of the process, does and hands over.\<close>

definition trace :: "(ambient \<Rightarrow> process \<Rightarrow> error + process) \<Rightarrow> ambient \<Rightarrow> error + effect list" where
  "trace prog amb = (case prog amb startup of Inl e \<Rightarrow> Inl e | Inr p \<Rightarrow> Inr (effects p))"

definition handed :: "(ambient \<Rightarrow> process \<Rightarrow> error + process) \<Rightarrow> ambient \<Rightarrow> error + jsvalue list" where
  "handed prog amb = (case trace prog amb of Inl e \<Rightarrow> Inl e | Inr es \<Rightarrow> Inr (map argument es))"

text \<open>
  The middleware transforms a configuration registers: the entries of its
  \<^verbatim>\<open>middlewares\<close> array, none when the property is absent.
\<close>

definition active_middlewares :: "jsvalue \<Rightarrow> jsvalue list" where
  "active_middlewares cfg =
    (case prop_of ''middlewares'' cfg of Some (Arr ms) \<Rightarrow> ms | _ \<Rightarrow> [])"

section \<open>Content files\<close>

text \<open>
  The head of each Markdown file, line by line, up to the empty line that follows the
  front matter; the body after it is left out.
\<close>

definition jetpack_compose_md :: "string list" where
  "jetpack_compose_md =
    [''---'',
     ''title: An Introduction to Android Jetpack Compose'',
     ''publish_date: 2022-06-10'',
     ''---'',
     '''']"

definition page_chat_md :: "string list" where
  \<open>page_chat_md =
    [''---'',
     ''title: "Enhance Your Web Browsing Experience with Our Chrome Extension: PageChat"'',
     ''pathname: "/enhance-your-web-browsing-experience-with-pagechat-our-chrome-extension-and-how-we-built-it"'',
     ''publish_date: 2023-06-08'',
     ''---'',
     '''']\<close>

definition promise_all_settled_md :: "string list" where
  "promise_all_settled_md =
    [''---'',
     ''title: A better Promise.all'',
     ''publish_date: 2022-06-22'',
     ''---'',
     '''']"

definition part_001 :: "string list" where
  "part_001 =
    [''---'',
     ''title: Remembering the previous value of a prop or a state while using React Hooks'',
     ''publish_date: 2019-06-15'',
     ''---'',
     '''']"

subsection \<open>Front matter\<close>

record date =
  year :: nat
  month :: nat
  day :: nat

record front_matter =
  title :: string
  publish_date :: date
  pathname :: "string option"

datatype fm_error =
    NoFrontMatter
  | Unterminated
  | BadLine string
  | BadScalar string
  | Missing string
  | BadDate string

fun until_delimiter :: "string list \<Rightarrow> (string list \<times> string list) option" where
  "until_delimiter [] = None"
| "until_delimiter (l # ls) =
    (if l = ''---'' then Some ([], ls)
     else map_option (\<lambda>(fm, body). (l # fm, body)) (until_delimiter ls))"

definition split_front_matter :: "string list \<Rightarrow> fm_error + (string list \<times> string list)" where
  "split_front_matter ls =
    (case ls of
       [] \<Rightarrow> Inl NoFrontMatter
     | l # rest \<Rightarrow>
         if l = ''---''
         then (case until_delimiter rest of None \<Rightarrow> Inl Unterminated | Some r \<Rightarrow> Inr r)
         else Inl NoFrontMatter)"

fun split_key :: "string \<Rightarrow> (string \<times> string) option" where
  "split_key (c # d # cs) =
    (if c = CHR '':'' \<and> d = CHR '' '' then Some ([], cs)
     else map_option (\<lambda>(k, v). (c # k, v)) (split_key (d # cs)))"
| "split_key cs = None"

definition dquote :: char where
  "dquote = CHR 0x22"

definition scalar :: "string \<Rightarrow> fm_error + string" where
  "scalar v =
    (if 2 \<le> length v \<and> hd v = dquote \<and> last v = dquote then Inr (butlast (tl v))
     else if split_key v = None then Inr v
     else Inl (BadScalar v))"

fun entries :: "string list \<Rightarrow> fm_error + (string \<times> string) list" where
  "entries [] = Inr []"
| "entries (l # ls) =
    (case split_key l of
       None \<Rightarrow> Inl (BadLine l)
     | Some (k, v) \<Rightarrow>
         (case scalar v of
            Inl e \<Rightarrow> Inl e
          | Inr s \<Rightarrow>
              (case entries ls of
                 Inl e \<Rightarrow> Inl e
               | Inr es \<Rightarrow> Inr ((k, s) # es))))"

definition digit :: "char \<Rightarrow> nat option" where
  "digit c =
    (let n = (of_char c :: nat) in if 48 \<le> n \<and> n \<le> 57 then Some (n - 48) else None)"

fun number :: "nat \<Rightarrow> string \<Rightarrow> nat option" where
  "number acc [] = Some acc"
| "number acc (c # cs) =
    (case digit c of None \<Rightarrow> None | Some n \<Rightarrow> number (10 * acc + n) cs)"

fun parse_date :: "string \<Rightarrow> date option" where
  "parse_date [y1, y2, y3, y4, s1, m1, m2, s2, d1, d2] =
    (if s1 = CHR ''-'' \<and> s2 = CHR ''-''
     then (case (number 0 [y1, y2, y3, y4], number 0 [m1, m2], number 0 [d1, d2]) of
             (Some y, Some m, Some d) \<Rightarrow> Some \<lparr>year = y, month = m, day = d\<rparr>
           | _ \<Rightarrow> None)
     else None)"
| "parse_date s = None"

definition leap :: "nat \<Rightarrow> bool" where
  "leap y = (if y mod 100 = 0 then y mod 400 = 0 else y mod 4 = 0)"

definition days_in_month :: "nat \<Rightarrow> nat \<Rightarrow> nat" where
  "days_in_month y m =
    (if m = 2 then (if leap y then 29 else 28)
     else if m = 4 \<or> m = 6 \<or> m = 9 \<or> m = 11 then 30
     else 31)"

definition valid_date :: "date \<Rightarrow> bool" where
  "valid_date d =
    (1 \<le> month d \<and> month d \<le> 12 \<and> 1 \<le> day d \<and> day d \<le> days_in_month (year d) (month d))"

text \<open>
  Modelled from the spec: the front-matter parser, which belongs to the external
  rendering engine and is not under src/. The spec gives the record a front-matter
  block is recognised as, \<open>{title: string, publish_date: date, pathname: optional string}\<close>,
  followed by the Markdown body. The block syntax is the one the content files use: a
  first line \<^verbatim>\<open>---\<close>, lines \<^verbatim>\<open>key: value\<close> up to the next line \<^verbatim>\<open>---\<close>, a value
  either wrapped in double quotes or plain (and then free of a further \<^verbatim>\<open>: \<close>), a date
  written \<^verbatim>\<open>YYYY-MM-DD\<close>.
\<close>

definition parse_front_matter :: "string list \<Rightarrow> fm_error + front_matter" where
  "parse_front_matter ls =
    (case split_front_matter ls of
       Inl e \<Rightarrow> Inl e
     | Inr (fm, body) \<Rightarrow>
         (case entries fm of
            Inl e \<Rightarrow> Inl e
          | Inr es \<Rightarrow>
              (case map_of es ''title'' of
                 None \<Rightarrow> Inl (Missing ''title'')
               | Some t \<Rightarrow>
                   (case map_of es ''publish_date'' of
                      None \<Rightarrow> Inl (Missing ''publish_date'')
                    | Some d \<Rightarrow>
                        (case parse_date d of
                           None \<Rightarrow> Inl (BadDate d)
                         | Some dt \<Rightarrow>
                             Inr \<lparr>title = t, publish_date = dt,
                                  pathname = map_of es ''pathname''\<rparr>)))))"

definition conforms :: "string list \<Rightarrow> bool" where
  "conforms ls =
    (case parse_front_matter ls of
       Inl e \<Rightarrow> False
     | Inr fm \<Rightarrow> title fm \<noteq> [] \<and> valid_date (publish_date fm))"

section \<open>What the entry modules do\<close>

lemma main_ts_run:
  "main_ts amb p =
    Inr (p\<lparr>objects := objects p @ [main_ts_settings],
           effects := effects p @ [Invoke main_ts_import main_ts_settings]\<rparr>)"
  by (simp add: main_ts_def main_ts_literal_def call_default_def object_literal_def)

lemma part_000_run:
  "part_000 amb p =
    Inr (p\<lparr>objects := objects p @ [part_000_settings],
           effects := effects p @ [Invoke part_000_import part_000_settings]\<rparr>)"
  by (simp add: part_000_def part_000_literal_def call_default_def object_literal_def)

lemma trace_main_ts: "trace main_ts amb = Inr [Invoke main_ts_import main_ts_settings]"
  by (simp add: trace_def main_ts_run startup_def)

lemma trace_part_000: "trace part_000 amb = Inr [Invoke part_000_import part_000_settings]"
  by (simp add: trace_def part_000_run startup_def)

lemma handed_main_ts: "handed main_ts amb = Inr [main_ts_settings]"
  by (simp add: handed_def trace_main_ts)

lemma handed_part_000: "handed part_000 amb = Inr [part_000_settings]"
  by (simp add: handed_def trace_part_000)

text \<open>
  C1. Whatever the surroundings, each entry module hands exactly one configuration to
  the blog entry point, and the \<^verbatim>\<open>links\<close> property of that configuration is the
  array of exactly two objects, \<open>{title: "Email", url: "mailto:hegystyle@gmail.com"}\<close> first
  and \<open>{title: "Github", url: "https://github.com/HenokT"}\<close> second.
\<close>

theorem links_exactly_email_then_github:
  "(\<exists>cfg. handed main_ts amb = Inr [cfg] \<and> prop_of ''links'' cfg = Some (Arr
      [Obj [(''title'', Str ''Email''), (''url'', Str ''mailto:hegystyle@gmail.com'')],
       Obj [(''title'', Str ''Github''), (''url'', Str ''https://github.com/HenokT'')]]))
   \<and> (\<exists>cfg. handed part_000 amb = Inr [cfg] \<and> prop_of ''links'' cfg = Some (Arr
      [Obj [(''title'', Str ''Email''), (''url'', Str ''mailto:hegystyle@gmail.com'')],
       Obj [(''title'', Str ''Github''), (''url'', Str ''https://github.com/HenokT'')]]))"
  by (simp add: handed_main_ts handed_part_000 main_ts_settings_def part_000_settings_def)

text \<open>
  C2. In the configuration each entry module hands over, \<^verbatim>\<open>title\<close> and \<^verbatim>\<open>author\<close>
  are both the string \<open>Henok Tadesse\<close>.
\<close>

theorem title_and_author_henok_tadesse:
  "(\<exists>cfg. handed main_ts amb = Inr [cfg]
      \<and> prop_of ''title'' cfg = Some (Str ''Henok Tadesse'')
      \<and> prop_of ''author'' cfg = Some (Str ''Henok Tadesse''))
   \<and> (\<exists>cfg. handed part_000 amb = Inr [cfg]
      \<and> prop_of ''title'' cfg = Some (Str ''Henok Tadesse'')
      \<and> prop_of ''author'' cfg = Some (Str ''Henok Tadesse''))"
  by (simp add: handed_main_ts handed_part_000 main_ts_settings_def part_000_settings_def)

text \<open>
  C3, as stated, fails on src/main.ts: there the whole \<^verbatim>\<open>middlewares\<close> property is
  commented out, opening bracket included, so the configuration handed over has no
  \<^verbatim>\<open>middlewares\<close> property at all; it is not an empty array.
\<close>

theorem main_ts_middlewares_not_an_empty_array:
  "handed main_ts \<lparr>argv = [], environ = []\<rparr> = Inr [main_ts_settings]
   \<and> prop_of ''middlewares'' main_ts_settings \<noteq> Some (Arr [])"
  by (simp add: handed_main_ts main_ts_settings_def)

text \<open>
  C3, amended. The configuration of src/unnamed/part_000 has \<^verbatim>\<open>middlewares\<close> set to
  the empty array; the configuration of src/main.ts does not set \<^verbatim>\<open>middlewares\<close>.
  In both, no middleware transform is active.
\<close>

theorem no_middleware_active:
  "(\<exists>cfg. handed part_000 amb = Inr [cfg]
      \<and> prop_of ''middlewares'' cfg = Some (Arr []) \<and> active_middlewares cfg = [])
   \<and> (\<exists>cfg. handed main_ts amb = Inr [cfg]
      \<and> prop_of ''middlewares'' cfg = None \<and> active_middlewares cfg = [])"
  by (simp add: handed_main_ts handed_part_000 active_middlewares_def
      main_ts_settings_def part_000_settings_def)

text \<open>
  C4. The front matter of each of the four Markdown files parses, to the record shown;
  in each the title is a non-empty string and the publish date is a date of the
  calendar. Only src/posts/page-chat.md gives a \<^verbatim>\<open>pathname\<close>.
\<close>

theorem front_matter_of_every_content_file:
  "parse_front_matter jetpack_compose_md =
      Inr \<lparr>title = ''An Introduction to Android Jetpack Compose'',
           publish_date = \<lparr>year = 2022, month = 6, day = 10\<rparr>, pathname = None\<rparr>
   \<and> parse_front_matter page_chat_md =
      Inr \<lparr>title = ''Enhance Your Web Browsing Experience with Our Chrome Extension: PageChat'',
           publish_date = \<lparr>year = 2023, month = 6, day = 8\<rparr>,
           pathname = Some ''/enhance-your-web-browsing-experience-with-pagechat-our-chrome-extension-and-how-we-built-it''\<rparr>
   \<and> parse_front_matter promise_all_settled_md =
      Inr \<lparr>title = ''A better Promise.all'',
           publish_date = \<lparr>year = 2022, month = 6, day = 22\<rparr>, pathname = None\<rparr>
   \<and> parse_front_matter part_001 =
      Inr \<lparr>title = ''Remembering the previous value of a prop or a state while using React Hooks'',
           publish_date = \<lparr>year = 2019, month = 6, day = 15\<rparr>, pathname = None\<rparr>
   \<and> conforms jetpack_compose_md \<and> conforms page_chat_md
   \<and> conforms promise_all_settled_md \<and> conforms part_001"
  by (intro conjI; code_simp)

text \<open>
  C5. Run from the start of the process, each entry module makes exactly one call: the
  default export of the module it imports, with its configuration as the argument.
  Run from any process, it adds that one call to the calls already made and nothing else.
\<close>

theorem blog_called_exactly_once:
  "trace main_ts amb = Inr [Invoke main_ts_import main_ts_settings]
   \<and> trace part_000 amb = Inr [Invoke part_000_import part_000_settings]
   \<and> (\<exists>q. main_ts amb p = Inr q
        \<and> effects q = effects p @ [Invoke main_ts_import main_ts_settings])
   \<and> (\<exists>q. part_000 amb p = Inr q
        \<and> effects q = effects p @ [Invoke part_000_import part_000_settings])"
  by (simp add: trace_main_ts trace_part_000 main_ts_run part_000_run)

text \<open>
  C6. Each entry module builds exactly one object, its configuration, and leaves every
  object built before as it was. When the module is done, that object still has the
  value of the literal, which is the value that was handed to the blog entry point.
\<close>

theorem settings_built_once_and_unchanged:
  "(\<exists>q. main_ts amb p = Inr q \<and> objects q = objects p @ [main_ts_settings]
       \<and> effects q = effects p @ [Invoke main_ts_import (last (objects q))])
   \<and> (\<exists>q. part_000 amb p = Inr q \<and> objects q = objects p @ [part_000_settings]
       \<and> effects q = effects p @ [Invoke part_000_import (last (objects q))])"
  by (simp add: main_ts_run part_000_run)

text \<open>
  C7. Two runs of an entry module that differ only in their surroundings (command-line
  arguments, environment variables) end in the same process and hand the same
  configuration to the blog entry point.
\<close>

theorem settings_independent_of_ambient:
  "main_ts amb p = main_ts amb' p \<and> part_000 amb p = part_000 amb' p
   \<and> handed main_ts amb = handed main_ts amb' \<and> handed part_000 amb = handed part_000 amb'
   \<and> handed main_ts amb = Inr [main_ts_settings]
   \<and> handed part_000 amb = Inr [part_000_settings]"
  by (simp add: main_ts_run part_000_run handed_main_ts handed_part_000)

text \<open>
  C9. src/main.ts calls the default export of blog@0.3.3 once and src/unnamed/part_000
  calls the default export of the GitHub main version once, and the two configurations
  have the same \<^verbatim>\<open>title\<close>, \<^verbatim>\<open>author\<close>, \<^verbatim>\<open>avatar\<close>, \<^verbatim>\<open>avatarClass\<close> and
  \<^verbatim>\<open>links\<close> (the whole array, in order), each of them set in both.
\<close>

theorem entry_modules_agree:
  "\<exists>c d. trace main_ts amb = Inr [Invoke ''https://deno.land/x/blog@0.3.3/blog.tsx'' c]
     \<and> trace part_000 amb =
         Inr [Invoke ''https://raw.githubusercontent.com/denoland/deno_blog/main/blog.tsx'' d]
     \<and> prop_of ''title'' c = prop_of ''title'' d \<and> prop_of ''title'' c \<noteq> None
     \<and> prop_of ''author'' c = prop_of ''author'' d \<and> prop_of ''author'' c \<noteq> None
     \<and> prop_of ''avatar'' c = prop_of ''avatar'' d \<and> prop_of ''avatar'' c \<noteq> None
     \<and> prop_of ''avatarClass'' c = prop_of ''avatarClass'' d
     \<and> prop_of ''avatarClass'' c \<noteq> None
     \<and> prop_of ''links'' c = prop_of ''links'' d \<and> prop_of ''links'' c \<noteq> None"
  by (simp add: trace_main_ts trace_part_000 main_ts_import_def part_000_import_def
      main_ts_settings_def part_000_settings_def)

text \<open>
  C10. The property names on which the two configurations differ are exactly
  \<^verbatim>\<open>description\<close>, \<^verbatim>\<open>readtime\<close>, \<^verbatim>\<open>middlewares\<close> and \<^verbatim>\<open>background\<close>. The first
  three are set by src/unnamed/part_000 only (to the description text, to true and to
  the empty array), the last by src/main.ts only (to \<open>#f9f9f9\<close>).
\<close>

theorem entry_modules_differ_only_in:
  "\<exists>c d. handed main_ts amb = Inr [c] \<and> handed part_000 amb = Inr [d]
     \<and> {k. prop_of k c \<noteq> prop_of k d}
         = {''description'', ''readtime'', ''middlewares'', ''background''}
     \<and> prop_of ''description'' d
         = Some (Str ''A personal blog where I share what I learn as a sofware developer.'')
     \<and> prop_of ''readtime'' d = Some (Bool True)
     \<and> prop_of ''middlewares'' d = Some (Arr [])
     \<and> prop_of ''description'' c = None
     \<and> prop_of ''readtime'' c = None
     \<and> prop_of ''middlewares'' c = None
     \<and> prop_of ''background'' c = Some (Str ''#f9f9f9'')
     \<and> prop_of ''background'' d = None
     \<and> set (keys d) - set (keys c) = {''description'', ''readtime'', ''middlewares''}
     \<and> set (keys c) - set (keys d) = {''background''}"
proof -
  have "{k. prop_of k main_ts_settings \<noteq> prop_of k part_000_settings}
      = {''description'', ''readtime'', ''middlewares'', ''background''}"
    by (auto simp add: main_ts_settings_def part_000_settings_def split: if_splits)
  then show ?thesis
    by (auto simp add: handed_main_ts handed_part_000 main_ts_settings_def
        part_000_settings_def)
qed

end
